theory Spec2Isabelle
  imports Main
begin

section \<open>Image asset store of the backend (src/server.js)\<close>

text \<open>
  The development embeds the image routes of \<^verbatim>\<open>server.js\<close>: the multer disk storage that
  names and writes an uploaded file, and the handlers of \<^verbatim>\<open>POST /api/upload\<close>,
  \<^verbatim>\<open>GET /api/images/:key\<close> and \<^verbatim>\<open>DELETE /api/images/:key\<close>. The older copy of the file
  has the same three handlers and the same storage, line for line; its upload route has no
  \<^verbatim>\<open>authMiddleware\<close> in front.

  The collection \<^verbatim>\<open>pics\<close> has a unique index on \<^verbatim>\<open>key\<close>, so it is a map from keys to
  documents. The file system is a map from paths to the contents of the regular files,
  and the set of the paths that are directories; a path is the list of its segments from
  the root. Path separators are those of POSIX. A JavaScript string is a \<open>string\<close>, a
  list of characters with codes up to 255; \<^verbatim>\<open>req.body.key\<close> is a string or undefined and
  is a \<open>string option\<close>.

  A handler runs from its first statement to its answer without another request in
  between. \<^verbatim>\<open>fs.unlink\<close> is started where the handler calls it and is never taken
  back, so its effect is placed at the call. The upload handler catches a rejected query
  and answers 500, so its two queries may be rejected; the other two handlers have no
  \<^verbatim>\<open>catch\<close>, and their query is taken as completing.
\<close>

subsection \<open>Documents, stores, requests and responses\<close>

type_synonym bytes = "nat list"

text \<open>\<^verbatim>\<open>imageSchema\<close>, with the two fields that \<^verbatim>\<open>timestamps: true\<close> adds.\<close>

record image_doc =
  key :: string
  url :: string
  filename :: string
  createdAt :: nat
  updatedAt :: nat

record server_state =
  pics :: "string \<rightharpoonup> image_doc"
  files :: "string list \<rightharpoonup> bytes"
  dirs :: "string list set"

datatype fs_error = ENOENT | EISDIR | ENOTDIR | EINVAL | EPERM | EBUSY | EIO

text \<open>
  What the code reads from its surroundings: \<^verbatim>\<open>BASE_URL\<close>; \<^verbatim>\<open>UPLOAD_DIR\<close>, an absolute
  path; the clock of \<^verbatim>\<open>Date.now()\<close> and the clock of the database; which tokens
  \<^verbatim>\<open>jwt.verify\<close> accepts; whether a query of the upload handler is rejected (the handler's
  \<^verbatim>\<open>try\<close>/\<^verbatim>\<open>catch\<close> is for that); and the error, if any, with which the operating system
  refuses to open a file for writing, or to unlink a file, where the path itself allows it.
\<close>

record env =
  BASE_URL :: string
  UPLOAD_DIR :: "string list"
  date_now :: nat
  mongo_now :: nat
  jwt_verify :: "string \<Rightarrow> bool"
  findOne_rejects :: bool
  findOneAndUpdate_rejects :: bool
  write_error :: "fs_error option"
  unlink_error :: "fs_error option"

text \<open>
  What multer meets in the body of a request, in the order of the body, as far as it
  decides what multer does: a file part with its field name, its file name and its bytes,
  or an error of the stream (a malformed body, a limit that is passed).
\<close>

datatype body_event =
    File_part string string bytes
  | Body_error

text \<open>
  An upload request: the \<^verbatim>\<open>authorization\<close> header, \<^verbatim>\<open>req.body.key\<close> as it is when multer
  reaches the file part (fields sent after the file are not there yet),
  \<^verbatim>\<open>req.body.key\<close> as it is when the handler runs, and the events of the body.
\<close>

record upload_request =
  authorization :: "string option"
  key_at_file_part :: "string option"
  body_key :: "string option"
  body_events :: "body_event list"

text \<open>
  The answers: the four JSON bodies the handlers send, and the page of Express's default
  error handler, with its status, for an error a middleware passes on.
\<close>

datatype response =
    Upload_json string string
  | Image_json string string
  | Delete_json string
  | Error_json nat string
  | Error_page nat

subsection \<open>JavaScript helpers\<close>

text \<open>\<^verbatim>\<open>v || d\<close> on a string that may be undefined: undefined and the empty string are falsy.\<close>

definition or_default :: "string option \<Rightarrow> string \<Rightarrow> string" where
  "or_default v d = (case v of None \<Rightarrow> d | Some s \<Rightarrow> if s = [] then d else s)"

text \<open>A non-negative integer in a template literal: its decimal digits.\<close>

fun show_nat :: "nat \<Rightarrow> string" where
  "show_nat n =
     (if n < 10 then [''0123456789'' ! n]
      else show_nat (n div 10) @ [''0123456789'' ! (n mod 10)])"

declare show_nat.simps [simp del]

definition in_range :: "char \<Rightarrow> char \<Rightarrow> char \<Rightarrow> bool" where
  "in_range lo hi c = ((of_char lo :: nat) \<le> of_char c \<and> (of_char c :: nat) \<le> of_char hi)"

text \<open>The complement of the class \<^verbatim>\<open>[^a-zA-Z0-9.\-_]\<close>.\<close>

definition safe_char :: "char \<Rightarrow> bool" where
  "safe_char c =
     (in_range CHR ''a'' CHR ''z'' c \<or> in_range CHR ''A'' CHR ''Z'' c \<or>
      in_range CHR ''0'' CHR ''9'' c \<or> c = CHR ''.'' \<or> c = CHR ''-'' \<or> c = CHR ''_'')"

text \<open>\<^verbatim>\<open>name.replace(/[^a-zA-Z0-9.\-_]/g, "_")\<close>\<close>

definition replace_unsafe :: "string \<Rightarrow> string" where
  "replace_unsafe name = map (\<lambda>c. if safe_char c then c else CHR ''_'') name"

text \<open>
  \<^verbatim>\<open>encodeURIComponent\<close> on characters up to code 255: letters, digits and
  \<^verbatim>\<open>- _ . ! ~ * ' ( )\<close> stay, every other character becomes the percent-escapes of its
  UTF-8 bytes (one byte below 128, two from 128 on).
\<close>

definition uri_unreserved :: "char \<Rightarrow> bool" where
  "uri_unreserved c =
     (in_range CHR ''a'' CHR ''z'' c \<or> in_range CHR ''A'' CHR ''Z'' c \<or>
      in_range CHR ''0'' CHR ''9'' c \<or> c \<in> set ''-_.!~*()'' \<or> c = CHR 0x27)"

definition percent :: "nat \<Rightarrow> string" where
  "percent b =
     [CHR ''%'', ''0123456789ABCDEF'' ! (b div 16 mod 16), ''0123456789ABCDEF'' ! (b mod 16)]"

definition encode_char :: "char \<Rightarrow> string" where
  "encode_char c =
     (let n = (of_char c :: nat) in
      if uri_unreserved c then [c]
      else if n < 128 then percent n
      else percent (192 + n div 64) @ percent (128 + n mod 64))"

definition encodeURIComponent :: "string \<Rightarrow> string" where
  "encodeURIComponent s = concat (map encode_char s)"

text \<open>\<^verbatim>\<open>s.split(sep)\<close> for a separator of one character.\<close>

fun split_on :: "char \<Rightarrow> string \<Rightarrow> string list" where
  "split_on sep [] = [[]]"
| "split_on sep (c # cs) =
     (if c = sep then [] # split_on sep cs
      else (case split_on sep cs of
              [] \<Rightarrow> [[c]]
            | w # ws \<Rightarrow> (c # w) # ws))"

text \<open>
  \<^verbatim>\<open>path.join(dir, name)\<close> for an absolute, normalised \<open>dir\<close>: the segments of \<open>name\<close>
  are taken in turn, an empty segment and \<^verbatim>\<open>.\<close> are dropped, \<^verbatim>\<open>..\<close> takes the last
  segment away (and nothing at the root). The result keeps a slash at the end of
  \<open>name\<close>; the flag says whether it has one.
\<close>

definition path_step :: "string list \<Rightarrow> string \<Rightarrow> string list" where
  "path_step p seg =
     (if seg = [] then p
      else if seg = ''.'' then p
      else if seg = ''..'' then butlast p
      else p @ [seg])"

definition path_join :: "string list \<Rightarrow> string \<Rightarrow> string list \<times> bool" where
  "path_join dir name =
     (foldl path_step dir (split_on CHR ''/'' name),
      (case rev name of [] \<Rightarrow> False | c # _ \<Rightarrow> c = CHR ''/''))"

subsection \<open>File system operations\<close>

text \<open>Node refuses a path with a null byte before it asks the operating system.\<close>

definition invalid_path :: "string list \<Rightarrow> bool" where
  "invalid_path p = (CHR 0x00 \<in> set (concat p))"

text \<open>
  \<^verbatim>\<open>fs.existsSync(path)\<close>: a directory, or a regular file when the path has no slash at
  its end; false on every error.
\<close>

definition existsSync :: "string list \<times> bool \<Rightarrow> server_state \<Rightarrow> bool" where
  "existsSync path s =
     (case path of (p, slash) \<Rightarrow>
        if invalid_path p then False
        else if p \<in> dirs s then True
        else if slash then False
        else files s p \<noteq> None)"

text \<open>
  \<^verbatim>\<open>fs.unlink(path, callback)\<close>: the error passed to the callback, and the file system
  afterwards. The code calls it on a path that \<^verbatim>\<open>existsSync\<close> has accepted or that multer
  has written, so never on one with a null byte.
\<close>

definition unlink ::
  "fs_error option \<Rightarrow> string list \<times> bool \<Rightarrow> server_state \<Rightarrow> fs_error option \<times> server_state" where
  "unlink refusal path s =
     (case path of (p, slash) \<Rightarrow>
        if p \<in> dirs s then (Some EISDIR, s)
        else if files s p = None then (Some ENOENT, s)
        else if slash then (Some ENOTDIR, s)
        else (case refusal of
                Some err \<Rightarrow> (Some err, s)
              | None \<Rightarrow> (None, s\<lparr>files := (files s)(p := None)\<rparr>)))"

text \<open>
  \<^verbatim>\<open>if (fs.existsSync(oldPath)) fs.unlink(oldPath, () => {});\<close> as both handlers have it:
  the callback drops the error.
\<close>

definition unlink_if_exists ::
  "fs_error option \<Rightarrow> string list \<times> bool \<Rightarrow> server_state \<Rightarrow> server_state" where
  "unlink_if_exists refusal oldPath s =
     (if existsSync oldPath s then snd (unlink refusal oldPath s) else s)"

text \<open>
  \<^verbatim>\<open>fs.createWriteStream(finalPath)\<close> with the file's stream piped into it: an error of
  the stream, or the file system with the file created or replaced. The directory of the
  file has to be there.
\<close>

definition write_stream ::
  "fs_error option \<Rightarrow> string list \<times> bool \<Rightarrow> bytes \<Rightarrow> server_state \<Rightarrow> fs_error + server_state" where
  "write_stream refusal path content s =
     (case path of (p, slash) \<Rightarrow>
        if invalid_path p then Inl EINVAL
        else if p \<in> dirs s then Inl EISDIR
        else if slash then Inl EISDIR
        else if p = [] then Inl EISDIR
        else if butlast p \<in> dirs s then
          (case refusal of
             Some err \<Rightarrow> Inl err
           | None \<Rightarrow> Inr (s\<lparr>files := (files s)(p \<mapsto> content)\<rparr>))
        else Inl ENOENT)"

subsection \<open>The multer disk storage\<close>

text \<open>
  The \<^verbatim>\<open>filename\<close> callback of \<^verbatim>\<open>multer.diskStorage\<close>, given \<^verbatim>\<open>Date.now()\<close>,
  \<^verbatim>\<open>req.body.key\<close> and \<^verbatim>\<open>file.originalname\<close>.
\<close>

definition filename_cb :: "nat \<Rightarrow> string option \<Rightarrow> string \<Rightarrow> string" where
  "filename_cb now reqkey originalname =
     (let safe = replace_unsafe originalname;
          k = or_default reqkey ''image''
      in show_nat now @ ''_'' @ k @ ''_'' @ safe)"

text \<open>
  When multer gives up it unlinks what it has written for the request, at the path it
  wrote to, and does not look at the outcome.
\<close>

definition removeUploadedFiles :: "env \<Rightarrow> string option \<Rightarrow> server_state \<Rightarrow> server_state" where
  "removeUploadedFiles e written s =
     (case written of
        None \<Rightarrow> s
      | Some fname \<Rightarrow> snd (unlink (unlink_error e) (path_join (UPLOAD_DIR e) fname) s))"

text \<open>
  \<^verbatim>\<open>upload.single("image")\<close> over the events of the body; \<open>written\<close> is the name of the
  file written so far. A file part without a file name is passed over. The first part of
  the field \<^verbatim>\<open>image\<close> is named by the callback and written to
  \<^verbatim>\<open>path.join(UPLOAD_DIR, filename)\<close>. A part of another field, a second part of
  \<^verbatim>\<open>image\<close>, a file that cannot be written and an error of the stream make multer give
  up: the result is then \<open>Inl\<close> of the file system it leaves, and the handler does not
  run. Otherwise the result is \<open>Inr\<close> of \<^verbatim>\<open>req.file.filename\<close>, if there is a file, and
  the file system.
\<close>

fun multer_events ::
  "env \<Rightarrow> string option \<Rightarrow> body_event list \<Rightarrow> string option \<Rightarrow> server_state \<Rightarrow>
   server_state + (string option \<times> server_state)" where
  "multer_events e reqkey [] written s = Inr (written, s)"
| "multer_events e reqkey (Body_error # evs) written s = Inl (removeUploadedFiles e written s)"
| "multer_events e reqkey (File_part fieldname originalname content # evs) written s =
     (if originalname = [] then multer_events e reqkey evs written s
      else if fieldname = ''image'' \<and> written = None then
        (let fname = filename_cb (date_now e) reqkey originalname
         in case write_stream (write_error e) (path_join (UPLOAD_DIR e) fname) content s of
              Inl err \<Rightarrow> Inl s
            | Inr s1 \<Rightarrow> multer_events e reqkey evs (Some fname) s1)
      else Inl (removeUploadedFiles e written s))"

definition upload_single ::
  "env \<Rightarrow> upload_request \<Rightarrow> server_state \<Rightarrow> server_state + (string option \<times> server_state)" where
  "upload_single e req s = multer_events e (key_at_file_part req) (body_events req) None s"

subsection \<open>Database operations\<close>

definition findOne :: "string \<Rightarrow> server_state \<Rightarrow> image_doc option" where
  "findOne k s = pics s k"

text \<open>
  \<^verbatim>\<open>Image.findOneAndUpdate({key}, {key, url, filename}, {upsert: true, new: true})\<close>:
  the document after the update, and the collection with it.
\<close>

definition findOneAndUpdate ::
  "nat \<Rightarrow> string \<Rightarrow> string \<Rightarrow> string \<Rightarrow> server_state \<Rightarrow> image_doc \<times> server_state" where
  "findOneAndUpdate now k u f s =
     (let doc = (case pics s k of
                   None \<Rightarrow> \<lparr>key = k, url = u, filename = f, createdAt = now, updatedAt = now\<rparr>
                 | Some d \<Rightarrow> d\<lparr>key := k, url := u, filename := f, updatedAt := now\<rparr>)
      in (doc, s\<lparr>pics := (pics s)(k \<mapsto> doc)\<rparr>))"

text \<open>\<^verbatim>\<open>Image.findOneAndDelete({key})\<close>: the document removed, if there was one.\<close>

definition findOneAndDelete :: "string \<Rightarrow> server_state \<Rightarrow> image_doc option \<times> server_state" where
  "findOneAndDelete k s = (pics s k, s\<lparr>pics := (pics s)(k := None)\<rparr>)"

subsection \<open>The middleware and the handlers\<close>

text \<open>
  \<^verbatim>\<open>authMiddleware\<close>: the answer it sends itself, or \<open>None\<close> when it calls \<^verbatim>\<open>next()\<close>.
  The token is the second piece of the header split at spaces.
\<close>

definition authMiddleware :: "env \<Rightarrow> upload_request \<Rightarrow> response option" where
  "authMiddleware e req =
     (case authorization req of
        None \<Rightarrow> Some (Error_json 401 ''No token provided'')
      | Some authHeader \<Rightarrow>
          (if authHeader = [] then Some (Error_json 401 ''No token provided'')
           else
             (case split_on CHR '' '' authHeader of
                [] \<Rightarrow> Some (Error_json 401 ''Invalid token'')
              | [scheme] \<Rightarrow> Some (Error_json 401 ''Invalid token'')
              | scheme # token # rest \<Rightarrow>
                  (if token = [] then Some (Error_json 401 ''Invalid token'')
                   else if jwt_verify e token then None
                   else Some (Error_json 403 ''Token invalid or expired'')))))"

text \<open>\<^verbatim>\<open>GET /api/images/:key\<close>\<close>

definition get_image :: "string \<Rightarrow> server_state \<Rightarrow> response" where
  "get_image k s =
     (case findOne k s of
        None \<Rightarrow> Error_json 404 ''Not found''
      | Some doc \<Rightarrow> Image_json (key doc) (url doc))"

text \<open>
  The handler of \<^verbatim>\<open>POST /api/upload\<close>, given \<^verbatim>\<open>req.file.filename\<close> as multer left it.
  A rejected query is caught and answered with status 500; what was done before stays done.
\<close>

definition upload_handler ::
  "env \<Rightarrow> upload_request \<Rightarrow> string option \<Rightarrow> server_state \<Rightarrow> response \<times> server_state" where
  "upload_handler e req req_file s =
     (case body_key req of
        None \<Rightarrow> (Error_json 400 ''Missing 'key' field'', s)
      | Some k \<Rightarrow>
          (if k = [] then (Error_json 400 ''Missing 'key' field'', s)
           else
             (case req_file of
                None \<Rightarrow> (Error_json 400 ''No file uploaded'', s)
              | Some fname \<Rightarrow>
                  (let fileUrl = BASE_URL e @ ''/uploads/'' @ encodeURIComponent fname
                   in if findOne_rejects e then (Error_json 500 ''Upload failed'', s)
                      else
                        (let existing = findOne k s;
                             s1 = (case existing of
                                     None \<Rightarrow> s
                                   | Some old \<Rightarrow>
                                       if filename old \<noteq> [] \<and> filename old \<noteq> fname
                                       then
                                         (let oldPath = path_join (UPLOAD_DIR e) (filename old)
                                          in unlink_if_exists (unlink_error e) oldPath s)
                                       else s)
                         in if findOneAndUpdate_rejects e
                            then (Error_json 500 ''Upload failed'', s1)
                            else
                              (let (doc, s2) =
                                     findOneAndUpdate (mongo_now e) k fileUrl fname s1
                               in (Upload_json (key doc) (url doc), s2)))))))"

text \<open>
  The route \<^verbatim>\<open>POST /api/upload\<close> from multer on, which is the whole route in the older
  copy: multer, then the handler unless multer gave up. When multer gives up the error goes
  to Express, which answers with status 500.
\<close>

definition post_upload :: "env \<Rightarrow> upload_request \<Rightarrow> server_state \<Rightarrow> response \<times> server_state" where
  "post_upload e req s =
     (case upload_single e req s of
        Inl s1 \<Rightarrow> (Error_page 500, s1)
      | Inr (req_file, s1) \<Rightarrow> upload_handler e req req_file s1)"

text \<open>The route of \<^verbatim>\<open>server.js\<close>: \<^verbatim>\<open>authMiddleware\<close>, multer, the handler.\<close>

definition post_api_upload ::
  "env \<Rightarrow> upload_request \<Rightarrow> server_state \<Rightarrow> response \<times> server_state" where
  "post_api_upload e req s =
     (case authMiddleware e req of
        Some answer \<Rightarrow> (answer, s)
      | None \<Rightarrow> post_upload e req s)"

text \<open>\<^verbatim>\<open>DELETE /api/images/:key\<close>\<close>

definition delete_image :: "env \<Rightarrow> string \<Rightarrow> server_state \<Rightarrow> response \<times> server_state" where
  "delete_image e k s =
     (let (doc, s1) = findOneAndDelete k s;
          s2 = (case doc of
                  None \<Rightarrow> s1
                | Some d \<Rightarrow>
                    if filename d \<noteq> []
                    then
                      (let oldPath = path_join (UPLOAD_DIR e) (filename d)
                       in unlink_if_exists (unlink_error e) oldPath s1)
                    else s1)
      in (Delete_json k, s2))"

subsection \<open>The file reference as the specification words it\<close>

text \<open>
  The specification gives the sanitised name by an allow-list: letters, digits, dot, hyphen
  and underscore are kept and every other character is replaced by an underscore; the file
  reference is the timestamp, the key hint and the sanitised name, joined by underscores.
\<close>

definition spec_allowed :: "char set" where
  "spec_allowed = set ''abcdefghijklmnopqrstuvwxyzABCDEFGHIJKLMNOPQRSTUVWXYZ0123456789.-_''"

definition spec_sanitizedName :: "string \<Rightarrow> string" where
  "spec_sanitizedName originalName =
     map (\<lambda>c. if c \<in> spec_allowed then c else CHR ''_'') originalName"

definition spec_fileRef :: "nat \<Rightarrow> string \<Rightarrow> string \<Rightarrow> string" where
  "spec_fileRef timestamp keyHint originalName =
     show_nat timestamp @ ''_'' @ keyHint @ ''_'' @ spec_sanitizedName originalName"

subsection \<open>A store with one asset, and requests on it\<close>

definition logo_doc :: image_doc where
  "logo_doc =
     \<lparr>key = ''logo'', url = ''http://h/uploads/1_logo_a.png'', filename = ''1_logo_a.png'',
      createdAt = 1, updatedAt = 1\<rparr>"

definition logo_state :: server_state where
  "logo_state =
     \<lparr>pics = [''logo'' \<mapsto> logo_doc],
      files = [[''srv'', ''uploads'', ''1_logo_a.png''] \<mapsto> [1, 2, 3]],
      dirs = {[], [''srv''], [''srv'', ''uploads'']}\<rparr>"

definition calm_env :: env where
  "calm_env =
     \<lparr>BASE_URL = ''http://h'', UPLOAD_DIR = [''srv'', ''uploads''], date_now = 2,
      mongo_now = 3, jwt_verify = (\<lambda>token. token = ''good''), findOne_rejects = False,
      findOneAndUpdate_rejects = False, write_error = None, unlink_error = None\<rparr>"

definition logo_request :: upload_request where
  "logo_request =
     \<lparr>authorization = Some ''Bearer good'', key_at_file_part = Some ''logo'',
      body_key = Some ''logo'', body_events = [File_part ''image'' ''b c.png'' [4, 5]]\<rparr>"

definition keyless_request :: upload_request where
  "keyless_request =
     \<lparr>authorization = Some ''Bearer good'', key_at_file_part = None, body_key = None,
      body_events = [File_part ''image'' ''b c.png'' [4, 5]]\<rparr>"

text \<open>The same request with its file under the field \<^verbatim>\<open>photo\<close>.\<close>

definition stray_request :: upload_request where
  "stray_request =
     \<lparr>authorization = Some ''Bearer good'', key_at_file_part = None, body_key = None,
      body_events = [File_part ''photo'' ''b c.png'' [4, 5]]\<rparr>"

section \<open>Properties\<close>

subsection \<open>Auxiliary facts\<close>

lemma inj_of_char_nat: "inj (of_char :: char \<Rightarrow> nat)"
  by (simp add: inj_on_def)

lemma mem_set_of_char: "c \<in> set xs \<longleftrightarrow> (of_char c :: nat) \<in> set (map of_char xs)"
  by (simp add: inj_image_mem_iff [OF inj_of_char_nat])

lemma char_eq_iff_code: "c = d \<longleftrightarrow> (of_char c :: nat) = of_char d"
  by simp

text \<open>The ranges of the regular expression are the allow-list of the specification.\<close>

lemma safe_char_allowed: "safe_char c \<longleftrightarrow> c \<in> spec_allowed"
proof -
  define n where "n = (of_char c :: nat)"
  have "safe_char c \<longleftrightarrow>
      (97 \<le> n \<and> n \<le> 122) \<or> (65 \<le> n \<and> n \<le> 90) \<or> (48 \<le> n \<and> n \<le> 57) \<or>
      n = 46 \<or> n = 45 \<or> n = 95"
    unfolding safe_char_def in_range_def char_eq_iff_code [of c] n_def by simp
  also have "\<dots> \<longleftrightarrow> n \<in> set (map of_char
      ''abcdefghijklmnopqrstuvwxyzABCDEFGHIJKLMNOPQRSTUVWXYZ0123456789.-_'')"
    by (simp del: One_nat_def) presburger
  finally show ?thesis
    unfolding n_def mem_set_of_char [symmetric] spec_allowed_def .
qed

lemma replace_unsafe_spec: "replace_unsafe name = spec_sanitizedName name"
  by (simp add: replace_unsafe_def spec_sanitizedName_def safe_char_allowed)

text \<open>A name generated without a key has only characters of the allow-list.\<close>

lemma digit_allowed: "n < 10 \<Longrightarrow> ''0123456789'' ! n \<in> spec_allowed"
proof -
  assume "n < 10"
  then have "''0123456789'' ! n \<in> set ''0123456789''"
    by (intro nth_mem) simp
  then show ?thesis
    by (auto simp: spec_allowed_def)
qed

lemma show_nat_allowed: "set (show_nat n) \<subseteq> spec_allowed"
proof (induction n rule: show_nat.induct)
  case (1 n)
  show ?case
  proof (cases "n < 10")
    case True
    then show ?thesis
      by (subst show_nat.simps) (simp add: digit_allowed)
  next
    case False
    with "1" have "set (show_nat (n div 10)) \<subseteq> spec_allowed"
      by simp
    moreover have "''0123456789'' ! (n mod 10) \<in> spec_allowed"
      by (rule digit_allowed) simp
    ultimately show ?thesis
      using False by (subst show_nat.simps) simp
  qed
qed

lemma replace_unsafe_allowed: "set (replace_unsafe name) \<subseteq> spec_allowed"
  by (auto simp: replace_unsafe_def safe_char_allowed spec_allowed_def)

lemma keyless_name_allowed:
  "set (show_nat n @ ''_image_'' @ replace_unsafe name) \<subseteq> spec_allowed"
proof -
  have "set ''_image_'' \<subseteq> spec_allowed"
    by (simp add: spec_allowed_def)
  with show_nat_allowed [of n] replace_unsafe_allowed [of name] show ?thesis
    by (simp only: set_append Un_subset_iff)
qed

lemma slash_not_allowed: "CHR ''/'' \<notin> spec_allowed" and nul_not_allowed: "CHR 0x00 \<notin> spec_allowed"
  by (simp_all add: spec_allowed_def)

text \<open>A name without a slash is one segment, and \<^verbatim>\<open>path.join\<close> puts it into the directory.\<close>

lemma split_on_absent: "sep \<notin> set name \<Longrightarrow> split_on sep name = [name]"
  by (induction name) auto

lemma last_char_flag:
  "CHR ''/'' \<notin> set name \<Longrightarrow> (case rev name of [] \<Rightarrow> False | c # _ \<Rightarrow> c = CHR ''/'') = False"
  by (cases name rule: rev_cases) auto

lemma path_join_plain:
  assumes "CHR ''/'' \<notin> set name" and "CHR ''_'' \<in> set name"
  shows "path_join dir name = (dir @ [name], False)"
proof -
  from assms(2) have "name \<noteq> []" "name \<noteq> ''.''" "name \<noteq> ''..''"
    by auto
  then show ?thesis
    using assms(1) by (simp add: path_join_def split_on_absent path_step_def last_char_flag)
qed

lemma path_join_keyless:
  "path_join dir (show_nat n @ ''_image_'' @ replace_unsafe name) =
     (dir @ [show_nat n @ ''_image_'' @ replace_unsafe name], False)"
proof (rule path_join_plain)
  show "CHR ''/'' \<notin> set (show_nat n @ ''_image_'' @ replace_unsafe name)"
    using keyless_name_allowed [of n name] slash_not_allowed by blast
  show "CHR ''_'' \<in> set (show_nat n @ ''_image_'' @ replace_unsafe name)"
    by simp
qed

lemma keyless_name_valid:
  "invalid_path (dir @ [show_nat n @ ''_image_'' @ replace_unsafe name]) = invalid_path dir"
proof -
  have "CHR 0x00 \<notin> set (show_nat n @ ''_image_'' @ replace_unsafe name)"
    using keyless_name_allowed [of n name] nul_not_allowed by blast
  then show ?thesis
    by (simp add: invalid_path_def)
qed

lemma filename_cb_keyless:
  "filename_cb now None originalname = show_nat now @ ''_image_'' @ replace_unsafe originalname"
  by (simp add: filename_cb_def or_default_def)

text \<open>What multer leaves when it hands the request on.\<close>

lemma multer_events_after_file:
  "multer_events e rk evs (Some f) s = Inr (rf, s1) \<Longrightarrow> rf = Some f \<and> s1 = s"
  by (induction e rk evs "Some f" s rule: multer_events.induct) (auto split: if_splits)

lemma write_stream_result:
  "write_stream refusal path content s = Inr s1 \<Longrightarrow>
     s1 = s\<lparr>files := (files s)(fst path \<mapsto> content)\<rparr>"
  by (auto simp: write_stream_def split: prod.splits if_splits option.splits)

lemma multer_events_handed_on:
  assumes "multer_events e rk evs None s = Inr (rf, s1)"
  shows "(rf = None \<and> s1 = s) \<or>
    (\<exists>originalname content.
       File_part ''image'' originalname content \<in> set evs \<and>
       rf = Some (filename_cb (date_now e) rk originalname) \<and>
       s1 = s\<lparr>files := (files s)
         (fst (path_join (UPLOAD_DIR e) (filename_cb (date_now e) rk originalname))
            \<mapsto> content)\<rparr>)"
  using assms
proof (induction evs)
  case Nil
  then show ?case by simp
next
  case (Cons ev evs)
  show ?case
  proof (cases ev)
    case Body_error
    with Cons.prems show ?thesis by simp
  next
    case (File_part fieldname originalname content)
    show ?thesis
    proof (cases "originalname = []")
      case True
      with Cons File_part show ?thesis by auto
    next
      case False
      let ?fname = "filename_cb (date_now e) rk originalname"
      from Cons.prems File_part False have img: "fieldname = ''image''"
        by (auto split: if_splits)
      from Cons.prems File_part False img obtain s' where
        w: "write_stream (write_error e) (path_join (UPLOAD_DIR e) ?fname) content s = Inr s'"
        and rest: "multer_events e rk evs (Some ?fname) s' = Inr (rf, s1)"
        by (auto simp: Let_def split: sum.splits)
      from multer_events_after_file [OF rest] write_stream_result [OF w]
      have "rf = Some ?fname"
        and "s1 = s\<lparr>files := (files s)(fst (path_join (UPLOAD_DIR e) ?fname) \<mapsto> content)\<rparr>"
        by simp_all
      with File_part img show ?thesis
        by (intro disjI2 exI [of _ originalname] exI [of _ content]) (simp add: fun_upd_def)
    qed
  qed
qed

lemma upload_single_handed_on:
  assumes "upload_single e req s = Inr (req_file, s1)"
  shows "pics s1 = pics s \<and> dirs s1 = dirs s \<and>
    (case req_file of
       None \<Rightarrow> files s1 = files s
     | Some fname \<Rightarrow>
         (\<exists>originalname content.
            File_part ''image'' originalname content \<in> set (body_events req) \<and>
            fname = filename_cb (date_now e) (key_at_file_part req) originalname \<and>
            files s1 = (files s)(fst (path_join (UPLOAD_DIR e) fname) \<mapsto> content)))"
proof -
  from multer_events_handed_on [OF assms [unfolded upload_single_def]]
  consider "req_file = None" "s1 = s"
    | originalname content where
      "File_part ''image'' originalname content \<in> set (body_events req)"
      "req_file = Some (filename_cb (date_now e) (key_at_file_part req) originalname)"
      "s1 = s\<lparr>files := (files s)
         (fst (path_join (UPLOAD_DIR e)
            (filename_cb (date_now e) (key_at_file_part req) originalname)) \<mapsto> content)\<rparr>"
    by blast
  then show ?thesis
  proof cases
    case 1
    then show ?thesis by simp
  next
    case 2
    from 2(1) have "\<exists>originalname' content'.
        File_part ''image'' originalname' content' \<in> set (body_events req) \<and>
        filename_cb (date_now e) (key_at_file_part req) originalname =
          filename_cb (date_now e) (key_at_file_part req) originalname' \<and>
        (files s)(fst (path_join (UPLOAD_DIR e)
           (filename_cb (date_now e) (key_at_file_part req) originalname)) \<mapsto> content) =
        (files s)(fst (path_join (UPLOAD_DIR e)
           (filename_cb (date_now e) (key_at_file_part req) originalname)) \<mapsto> content')"
      by blast
    with 2(2,3) show ?thesis by simp
  qed
qed

text \<open>Whether the unlink is refused changes neither what multer decides nor the records.\<close>

lemma multer_events_unlink_error:
  "rel_sum (\<lambda>a b. pics a = pics b) (=)
     (multer_events (e\<lparr>unlink_error := r\<rparr>) rk evs w s)
     (multer_events (e\<lparr>unlink_error := r'\<rparr>) rk evs w s)"
proof (induction evs arbitrary: w s)
  case Nil
  show ?case by simp
next
  case (Cons ev evs)
  show ?case
  proof (cases ev)
    case Body_error
    then show ?thesis
      by (auto simp: removeUploadedFiles_def unlink_def split: option.splits prod.splits)
  next
    case (File_part fieldname originalname content)
    with Cons show ?thesis
      by (auto simp: removeUploadedFiles_def unlink_def Let_def
          split: option.splits prod.splits sum.splits)
  qed
qed

lemmas fixtures = logo_state_def logo_doc_def calm_env_def logo_request_def keyless_request_def
  stray_request_def

lemmas fs_defs = unlink_if_exists_def existsSync_def unlink_def write_stream_def
  invalid_path_def removeUploadedFiles_def

lemmas handler_defs = post_upload_def upload_handler_def findOne_def findOneAndUpdate_def
  findOneAndDelete_def get_image_def delete_image_def Let_def

lemma filename_example: "filename_cb 2 (Some ''logo'') ''b c.png'' = ''2_logo_b_c.png''"
  by (simp add: filename_cb_def show_nat.simps or_default_def replace_unsafe_def safe_char_def
      in_range_def)

lemma filename_example_keyless: "filename_cb 2 None ''b c.png'' = ''2_image_b_c.png''"
  by (simp add: filename_cb_def show_nat.simps or_default_def replace_unsafe_def safe_char_def
      in_range_def)

lemma encode_example: "encodeURIComponent ''2_logo_b_c.png'' = ''2_logo_b_c.png''"
  by (simp add: encodeURIComponent_def encode_char_def uri_unreserved_def in_range_def
      percent_def)

lemma path_examples:
  "path_join [''srv'', ''uploads''] ''1_logo_a.png'' = ([''srv'', ''uploads'', ''1_logo_a.png''], False)"
  "path_join [''srv'', ''uploads''] ''2_logo_b_c.png'' = ([''srv'', ''uploads'', ''2_logo_b_c.png''], False)"
  "path_join [''srv'', ''uploads''] ''2_image_b_c.png'' = ([''srv'', ''uploads'', ''2_image_b_c.png''], False)"
  by (simp_all add: path_join_def path_step_def)

lemma auth_example: "authMiddleware calm_env logo_request = None"
  "authMiddleware calm_env keyless_request = None"
  "authMiddleware calm_env stray_request = None"
  by (simp_all add: authMiddleware_def fixtures)

text \<open>
  With a key, a file and no rejected query the handler succeeds, and its url is built from
  the name multer gave the file.
\<close>

lemma upload_handler_succeeds:
  assumes "body_key req = Some k" and "k \<noteq> []"
    and "\<not> findOne_rejects e" and "\<not> findOneAndUpdate_rejects e"
  shows "fst (upload_handler e req (Some fname) s) =
     Upload_json k (BASE_URL e @ ''/uploads/'' @ encodeURIComponent fname)"
  using assms
  by (auto simp: handler_defs split: option.splits if_splits prod.splits)

text \<open>
  A body whose one file part is an image with a file name is handed on, when the name
  resolves into a directory that is there and nothing refuses the write.
\<close>

lemma upload_single_hands_on:
  assumes "body_events req = [File_part ''image'' originalname content]"
    and "originalname \<noteq> []"
    and "write_stream (write_error e)
           (path_join (UPLOAD_DIR e)
              (filename_cb (date_now e) (key_at_file_part req) originalname)) content s = Inr s1"
  shows "upload_single e req s =
     Inr (Some (filename_cb (date_now e) (key_at_file_part req) originalname), s1)"
  using assms by (simp add: upload_single_def Let_def)

lemma logo_upload_response:
  "fst (post_upload calm_env logo_request logo_state) =
     Upload_json ''logo'' ''http://h/uploads/2_logo_b_c.png''"
  by (simp add: handler_defs fs_defs fixtures upload_single_def filename_example encode_example
      path_examples)

lemma keyless_upload_single:
  "upload_single calm_env keyless_request logo_state =
     Inr (Some ''2_image_b_c.png'',
          logo_state\<lparr>files := (files logo_state)
            ([''srv'', ''uploads'', ''2_image_b_c.png''] \<mapsto> [4, 5])\<rparr>)"
  by (simp add: fs_defs fixtures upload_single_def filename_example_keyless path_examples
      Let_def)

subsection \<open>Order of the old file's removal and the upsert\<close>

text \<open>
  C1 says that the upload removes the previously referenced file only after the upsert for
  the key has succeeded, so that the old file is still there whenever the upsert did not
  complete. The handler unlinks the old file first and upserts afterwards. On the store
  with the one asset \<open>logo\<close>, whose file exists, an upload for \<open>logo\<close> whose upsert is
  rejected is answered with 500, the record still names the old file, and the old file is
  gone.
\<close>

theorem upload_unlinks_before_failed_upsert:
  "files logo_state [''srv'', ''uploads'', ''1_logo_a.png''] = Some [1, 2, 3] \<and>
   fst (post_upload (calm_env\<lparr>findOneAndUpdate_rejects := True\<rparr>) logo_request logo_state)
     = Error_json 500 ''Upload failed'' \<and>
   map_option filename
     (pics (snd (post_upload (calm_env\<lparr>findOneAndUpdate_rejects := True\<rparr>) logo_request
        logo_state)) ''logo'') = Some ''1_logo_a.png'' \<and>
   files (snd (post_upload (calm_env\<lparr>findOneAndUpdate_rejects := True\<rparr>) logo_request
     logo_state)) [''srv'', ''uploads'', ''1_logo_a.png''] = None"
  by (simp add: handler_defs fs_defs fixtures upload_single_def filename_example encode_example
      path_examples)

subsection \<open>Upload, lookup and delete\<close>

text \<open>
  C2: when an upload with the key \<open>k\<close> succeeds, the key is not empty, the answer carries
  \<open>k\<close>, and a lookup of \<open>k\<close> right after it answers with the url the upload answered with.
\<close>

theorem upload_then_lookup:
  assumes "body_key req = Some k"
    and "post_upload e req s = (Upload_json k' u, s')"
  shows "k' = k \<and> k \<noteq> [] \<and> get_image k s' = Image_json k u"
  using assms
  by (auto simp: handler_defs split: option.splits if_splits prod.splits sum.splits)

theorem upload_then_lookup_witness:
  "body_key logo_request = Some ''logo'' \<and>
   fst (post_upload calm_env logo_request logo_state) =
     Upload_json ''logo'' ''http://h/uploads/2_logo_b_c.png'' \<and>
   get_image ''logo'' (snd (post_upload calm_env logo_request logo_state)) =
     Image_json ''logo'' ''http://h/uploads/2_logo_b_c.png''"
proof -
  have k: "body_key logo_request = Some ''logo''"
    by (simp add: logo_request_def)
  have run: "post_upload calm_env logo_request logo_state =
      (Upload_json ''logo'' ''http://h/uploads/2_logo_b_c.png'',
       snd (post_upload calm_env logo_request logo_state))"
    using logo_upload_response by (metis prod.collapse)
  from upload_then_lookup [OF k run] k logo_upload_response show ?thesis
    by simp
qed

text \<open>
  C3: for every key and every store, a lookup of the key right after its delete answers
  404 \<open>Not found\<close>, whether or not the key had a record.
\<close>

theorem delete_then_lookup:
  "get_image k (snd (delete_image e k s)) = Error_json 404 ''Not found''"
  by (auto simp: handler_defs fs_defs split: option.splits if_splits prod.splits)

theorem delete_then_lookup_witness:
  "get_image ''logo'' logo_state = Image_json ''logo'' ''http://h/uploads/1_logo_a.png'' \<and>
   get_image ''logo'' (snd (delete_image calm_env ''logo'' logo_state)) =
     Error_json 404 ''Not found''"
  using delete_then_lookup [of "''logo''" calm_env logo_state]
  by (simp add: get_image_def findOne_def fixtures)

text \<open>
  C4: the delete answers with success and the key for every key and every store, also
  when the key has no record.
\<close>

theorem delete_always_succeeds: "fst (delete_image e k s) = Delete_json k"
  by (simp add: delete_image_def findOneAndDelete_def Let_def)

theorem delete_always_succeeds_witness:
  "pics logo_state ''hero'' = None \<and>
   fst (delete_image calm_env ''hero'' logo_state) = Delete_json ''hero'' \<and>
   fst (delete_image calm_env ''logo'' logo_state) = Delete_json ''logo''"
  using delete_always_succeeds [of calm_env "''hero''" logo_state]
    delete_always_succeeds [of calm_env "''logo''" logo_state]
  by (simp add: fixtures)

text \<open>
  C5: removing a file that is not there changes nothing and raises nothing, and a refused
  unlink is swallowed: the answer of the upload and the records it leaves are the same
  as when the unlink goes through, and the delete answers with success and leaves the same
  records.
\<close>

theorem cleanup_failure_swallowed:
  "(files s p = None \<longrightarrow> unlink_if_exists refusal (p, slash) s = s) \<and>
   fst (post_upload (e\<lparr>unlink_error := refusal\<rparr>) req s) =
     fst (post_upload (e\<lparr>unlink_error := None\<rparr>) req s) \<and>
   pics (snd (post_upload (e\<lparr>unlink_error := refusal\<rparr>) req s)) =
     pics (snd (post_upload (e\<lparr>unlink_error := None\<rparr>) req s)) \<and>
   delete_image (e\<lparr>unlink_error := refusal\<rparr>) k s =
     (Delete_json k, snd (delete_image (e\<lparr>unlink_error := refusal\<rparr>) k s)) \<and>
   pics (snd (delete_image (e\<lparr>unlink_error := refusal\<rparr>) k s)) =
     pics (snd (delete_image (e\<lparr>unlink_error := None\<rparr>) k s))"
proof -
  have absent: "files s p = None \<longrightarrow> unlink_if_exists refusal (p, slash) s = s"
    by (simp add: fs_defs)
  have handler: "fst (upload_handler (e\<lparr>unlink_error := refusal\<rparr>) req rf t) =
      fst (upload_handler (e\<lparr>unlink_error := None\<rparr>) req rf t) \<and>
    pics (snd (upload_handler (e\<lparr>unlink_error := refusal\<rparr>) req rf t)) =
      pics (snd (upload_handler (e\<lparr>unlink_error := None\<rparr>) req rf t))" for rf t
    by (auto simp: handler_defs fs_defs split: option.splits if_splits prod.splits)
  have upload: "fst (post_upload (e\<lparr>unlink_error := refusal\<rparr>) req s) =
      fst (post_upload (e\<lparr>unlink_error := None\<rparr>) req s) \<and>
    pics (snd (post_upload (e\<lparr>unlink_error := refusal\<rparr>) req s)) =
      pics (snd (post_upload (e\<lparr>unlink_error := None\<rparr>) req s))"
    using multer_events_unlink_error
      [where e = e and r = refusal and r' = None and rk = "key_at_file_part req"
        and evs = "body_events req" and w = None and s = s] handler
    by (auto simp: post_upload_def upload_single_def rel_sum.simps)
  have delete: "delete_image (e\<lparr>unlink_error := refusal\<rparr>) k s =
      (Delete_json k, snd (delete_image (e\<lparr>unlink_error := refusal\<rparr>) k s)) \<and>
    pics (snd (delete_image (e\<lparr>unlink_error := refusal\<rparr>) k s)) =
      pics (snd (delete_image (e\<lparr>unlink_error := None\<rparr>) k s))"
    by (auto simp: handler_defs fs_defs split: option.splits if_splits prod.splits)
  from absent upload delete show ?thesis by blast
qed

theorem cleanup_failure_swallowed_witness:
  "files logo_state [''srv'', ''uploads'', ''gone.png''] = None \<and>
   unlink_if_exists (Some EPERM) ([''srv'', ''uploads'', ''gone.png''], False) logo_state =
     logo_state \<and>
   fst (post_upload (calm_env\<lparr>unlink_error := Some EPERM\<rparr>) logo_request logo_state) =
     Upload_json ''logo'' ''http://h/uploads/2_logo_b_c.png'' \<and>
   files (snd (post_upload (calm_env\<lparr>unlink_error := Some EPERM\<rparr>) logo_request logo_state))
     [''srv'', ''uploads'', ''1_logo_a.png''] = Some [1, 2, 3] \<and>
   delete_image (calm_env\<lparr>unlink_error := Some EPERM\<rparr>) ''logo'' logo_state =
     (Delete_json ''logo'', logo_state\<lparr>pics := Map.empty\<rparr>)"
proof -
  have absent: "files logo_state [''srv'', ''uploads'', ''gone.png''] = None"
    by (simp add: logo_state_def)
  have calm: "calm_env\<lparr>unlink_error := None\<rparr> = calm_env"
    by (simp add: calm_env_def)
  note sw = cleanup_failure_swallowed
    [of logo_state "[''srv'', ''uploads'', ''gone.png'']" "Some EPERM" False calm_env
      logo_request "''logo''"]
  have noop: "unlink_if_exists (Some EPERM) ([''srv'', ''uploads'', ''gone.png''], False)
      logo_state = logo_state"
    using sw absent by blast
  have resp: "fst (post_upload (calm_env\<lparr>unlink_error := Some EPERM\<rparr>) logo_request logo_state) =
      Upload_json ''logo'' ''http://h/uploads/2_logo_b_c.png''"
    using sw logo_upload_response by (simp add: calm)
  have kept: "files (snd (post_upload (calm_env\<lparr>unlink_error := Some EPERM\<rparr>) logo_request
      logo_state)) [''srv'', ''uploads'', ''1_logo_a.png''] = Some [1, 2, 3]"
    by (simp add: handler_defs fs_defs fixtures upload_single_def filename_example
        encode_example path_examples)
  have del: "delete_image (calm_env\<lparr>unlink_error := Some EPERM\<rparr>) ''logo'' logo_state =
      (Delete_json ''logo'', logo_state\<lparr>pics := Map.empty\<rparr>)"
    by (simp add: handler_defs fs_defs fixtures path_examples)
  from absent noop resp kept del show ?thesis by simp
qed

text \<open>
  C7 says that every upload request whose key is missing or empty is answered with 400.
  A request does not reach the handler's check of the key when multer gives up on it:
  with a valid token, no key and its file under the field \<open>photo\<close>, the answer is the
  error page with status 500.
\<close>

theorem keyless_upload_refused_by_multer:
  "body_key stray_request = None \<and>
   authMiddleware calm_env stray_request = None \<and>
   fst (post_api_upload calm_env stray_request logo_state) = Error_page 500 \<and>
   fst (post_api_upload calm_env stray_request logo_state) \<noteq>
     Error_json 400 ''Missing 'key' field''"
proof -
  have "upload_single calm_env stray_request logo_state = Inl logo_state"
    by (simp add: upload_single_def stray_request_def removeUploadedFiles_def)
  then have "fst (post_api_upload calm_env stray_request logo_state) = Error_page 500"
    by (simp add: post_api_upload_def post_upload_def auth_example)
  moreover have "body_key stray_request = None"
    by (simp add: stray_request_def)
  ultimately show ?thesis
    by (simp add: auth_example)
qed

text \<open>
  C7, amended: an upload request whose key is missing or empty when the handler runs, and
  which \<^verbatim>\<open>authMiddleware\<close> and multer hand on to the handler, is answered with 400; the
  records and the directories are as before, and the files differ from before by nothing
  but the file multer wrote for the image part, if the request had one.
\<close>

theorem upload_without_key:
  assumes "body_key req = None \<or> body_key req = Some []"
    and "authMiddleware e req = None"
    and "upload_single e req s = Inr (req_file, s1)"
  shows "post_api_upload e req s = (Error_json 400 ''Missing 'key' field'', s1) \<and>
    pics s1 = pics s \<and> dirs s1 = dirs s \<and>
    (case req_file of
       None \<Rightarrow> files s1 = files s
     | Some fname \<Rightarrow>
         (\<exists>originalname content.
            File_part ''image'' originalname content \<in> set (body_events req) \<and>
            fname = filename_cb (date_now e) (key_at_file_part req) originalname \<and>
            files s1 = (files s)(fst (path_join (UPLOAD_DIR e) fname) \<mapsto> content)))"
proof -
  from assms have "post_api_upload e req s = (Error_json 400 ''Missing 'key' field'', s1)"
    by (auto simp: post_api_upload_def post_upload_def upload_handler_def)
  with upload_single_handed_on [OF assms(3)] show ?thesis
    by simp
qed

theorem upload_without_key_witness:
  "(body_key keyless_request = None \<or> body_key keyless_request = Some []) \<and>
   authMiddleware calm_env keyless_request = None \<and>
   post_api_upload calm_env keyless_request logo_state =
     (Error_json 400 ''Missing 'key' field'',
      logo_state\<lparr>files := (files logo_state)
        ([''srv'', ''uploads'', ''2_image_b_c.png''] \<mapsto> [4, 5])\<rparr>)"
proof -
  have h: "body_key keyless_request = None \<or> body_key keyless_request = Some []"
    by (simp add: keyless_request_def)
  from upload_without_key [OF h auth_example(2) keyless_upload_single] h auth_example(2)
  show ?thesis by simp
qed

text \<open>
  C8: a delete of a key that has no record answers with success and returns the store it
  was given: no record is removed and no file is unlinked.
\<close>

theorem delete_absent_key_identity:
  assumes "pics s k = None"
  shows "delete_image e k s = (Delete_json k, s)"
  using assms by (simp add: handler_defs fun_upd_idem)

theorem delete_absent_key_identity_witness:
  "pics logo_state ''hero'' = None \<and>
   delete_image calm_env ''hero'' logo_state = (Delete_json ''hero'', logo_state)"
proof -
  have h: "pics logo_state ''hero'' = None"
    by (simp add: fixtures)
  from delete_absent_key_identity [OF h, of calm_env] h show ?thesis by simp
qed

subsection \<open>The generated file name\<close>

text \<open>
  C6: for every original name and every key the callback sees, the generated name is the
  file reference of the specification: the timestamp, the key hint and the name sanitised
  by the allow-list, joined by underscores. The key hint is the callback's \<^verbatim>\<open>key\<close>,
  that is \<^verbatim>\<open>req.body.key || "image"\<close>.
\<close>

theorem filename_is_spec_fileRef:
  "filename_cb now reqkey originalname =
     spec_fileRef now (or_default reqkey ''image'') originalname"
  by (simp add: filename_cb_def spec_fileRef_def replace_unsafe_spec)

theorem filename_is_spec_fileRef_witness:
  "filename_cb 2 (Some ''logo'') ''b c.png'' = spec_fileRef 2 ''logo'' ''b c.png'' \<and>
   spec_fileRef 2 ''logo'' ''b c.png'' = ''2_logo_b_c.png''"
  using filename_is_spec_fileRef [of 2 "Some ''logo''" "''b c.png''"]
  by (simp add: or_default_def filename_example)

text \<open>
  C9: a key that is there when the name is generated goes into the name as it is, whatever
  its characters, between the timestamp and the sanitised original name; only the original
  name is filtered, and every character of its part is in the safe class.
\<close>

theorem key_embedded_verbatim:
  assumes "k \<noteq> []"
  shows "filename_cb now (Some k) originalname =
      show_nat now @ ''_'' @ k @ ''_'' @ replace_unsafe originalname \<and>
    (\<forall>c \<in> set (replace_unsafe originalname). safe_char c)"
  using assms
  by (auto simp: filename_cb_def or_default_def replace_unsafe_def safe_char_def)

theorem key_embedded_verbatim_witness:
  "''../a b'' \<noteq> [] \<and> \<not> safe_char CHR ''/'' \<and>
   filename_cb 2 (Some ''../a b'') ''b c.png'' = ''2_../a b_b_c.png''"
proof -
  have h: "''../a b'' \<noteq> []" by simp
  from key_embedded_verbatim [OF h, of 2 "''b c.png''"] h show ?thesis
    by (simp add: show_nat.simps replace_unsafe_def safe_char_def in_range_def)
qed

text \<open>
  C10: when the key is not there as the name is generated, the key part of the name is
  \<open>image\<close>. A request whose one file part is an image, sent before any key, has its file
  written under that name into the upload directory by multer, when the directory is there
  and the write is not refused. Whenever multer hands such a request on with a file, the
  file is the image part under that name, and the handler, with its check of the key,
  runs on the file system that already holds it, so that a request still without a key is
  answered with 400 while the file stays written.
\<close>

theorem keyless_filename_written_first:
  "filename_cb now None originalname = show_nat now @ ''_image_'' @ replace_unsafe originalname \<and>
   (key_at_file_part req = None \<and>
    body_events req = [File_part ''image'' originalname content] \<and> originalname \<noteq> [] \<and>
    UPLOAD_DIR e \<in> dirs s \<and> \<not> invalid_path (UPLOAD_DIR e) \<and> write_error e = None \<and>
    UPLOAD_DIR e @ [show_nat (date_now e) @ ''_image_'' @ replace_unsafe originalname]
      \<notin> dirs s \<longrightarrow>
      upload_single e req s =
        Inr (Some (show_nat (date_now e) @ ''_image_'' @ replace_unsafe originalname),
             s\<lparr>files := (files s)
               (UPLOAD_DIR e @ [show_nat (date_now e) @ ''_image_'' @ replace_unsafe originalname]
                  \<mapsto> content)\<rparr>)) \<and>
   (key_at_file_part req = None \<and> upload_single e req s = Inr (Some fname, s1) \<longrightarrow>
      (\<exists>name bytes.
         File_part ''image'' name bytes \<in> set (body_events req) \<and>
         fname = show_nat (date_now e) @ ''_image_'' @ replace_unsafe name \<and>
         s1 = s\<lparr>files := (files s)(UPLOAD_DIR e @ [fname] \<mapsto> bytes)\<rparr>) \<and>
      post_upload e req s = upload_handler e req (Some fname) s1 \<and>
      (body_key req = None \<longrightarrow>
         post_upload e req s = (Error_json 400 ''Missing 'key' field'', s1)))"
proof (intro conjI impI)
  show "filename_cb now None originalname =
      show_nat now @ ''_image_'' @ replace_unsafe originalname"
    by (rule filename_cb_keyless)
next
  let ?fname = "show_nat (date_now e) @ ''_image_'' @ replace_unsafe originalname"
  assume a: "key_at_file_part req = None \<and>
    body_events req = [File_part ''image'' originalname content] \<and> originalname \<noteq> [] \<and>
    UPLOAD_DIR e \<in> dirs s \<and> \<not> invalid_path (UPLOAD_DIR e) \<and> write_error e = None \<and>
    UPLOAD_DIR e @ [?fname] \<notin> dirs s"
  have pj: "path_join (UPLOAD_DIR e) ?fname = (UPLOAD_DIR e @ [?fname], False)"
    by (rule path_join_keyless)
  have valid: "\<not> invalid_path (UPLOAD_DIR e @ [?fname])"
    using a keyless_name_valid [of "UPLOAD_DIR e" "date_now e" originalname] by blast
  have w: "write_stream (write_error e) (path_join (UPLOAD_DIR e) ?fname) content s =
      Inr (s\<lparr>files := (files s)(UPLOAD_DIR e @ [?fname] \<mapsto> content)\<rparr>)"
    unfolding pj using a valid by (simp add: write_stream_def)
  have name: "filename_cb (date_now e) (key_at_file_part req) originalname = ?fname"
    using a by (simp add: filename_cb_keyless)
  from a have "body_events req = [File_part ''image'' originalname content]"
    and "originalname \<noteq> []"
    by simp_all
  from upload_single_hands_on [OF this w [folded name]]
  show "upload_single e req s =
      Inr (Some ?fname, s\<lparr>files := (files s)(UPLOAD_DIR e @ [?fname] \<mapsto> content)\<rparr>)"
    unfolding name .
next
  assume a: "key_at_file_part req = None \<and> upload_single e req s = Inr (Some fname, s1)"
  then have "multer_events e None (body_events req) None s = Inr (Some fname, s1)"
    by (auto simp: upload_single_def)
  from multer_events_handed_on [OF this]
  obtain name bytes where part: "File_part ''image'' name bytes \<in> set (body_events req)"
    and fname: "fname = filename_cb (date_now e) None name"
    and s1: "s1 = s\<lparr>files := (files s)
      (fst (path_join (UPLOAD_DIR e) (filename_cb (date_now e) None name)) \<mapsto> bytes)\<rparr>"
    by auto
  have fname': "fname = show_nat (date_now e) @ ''_image_'' @ replace_unsafe name"
    unfolding fname by (rule filename_cb_keyless)
  have "fst (path_join (UPLOAD_DIR e) fname) = UPLOAD_DIR e @ [fname]"
    unfolding fname' path_join_keyless by (rule fst_conv)
  with s1 have "s1 = s\<lparr>files := (files s)(UPLOAD_DIR e @ [fname] \<mapsto> bytes)\<rparr>"
    unfolding fname [symmetric] by simp
  with part fname' show "\<exists>name bytes.
      File_part ''image'' name bytes \<in> set (body_events req) \<and>
      fname = show_nat (date_now e) @ ''_image_'' @ replace_unsafe name \<and>
      s1 = s\<lparr>files := (files s)(UPLOAD_DIR e @ [fname] \<mapsto> bytes)\<rparr>"
    by blast
next
  assume "key_at_file_part req = None \<and> upload_single e req s = Inr (Some fname, s1)"
  then show "post_upload e req s = upload_handler e req (Some fname) s1"
    by (simp add: post_upload_def)
next
  assume "key_at_file_part req = None \<and> upload_single e req s = Inr (Some fname, s1)"
    and "body_key req = None"
  then show "post_upload e req s = (Error_json 400 ''Missing 'key' field'', s1)"
    by (simp add: post_upload_def upload_handler_def)
qed

theorem keyless_filename_written_first_witness:
  "key_at_file_part keyless_request = None \<and>
   body_events keyless_request = [File_part ''image'' ''b c.png'' [4, 5]] \<and>
   body_key keyless_request = None \<and>
   filename_cb 2 None ''b c.png'' = ''2_image_b_c.png'' \<and>
   upload_single calm_env keyless_request logo_state =
     Inr (Some ''2_image_b_c.png'',
          logo_state\<lparr>files := (files logo_state)
            ([''srv'', ''uploads'', ''2_image_b_c.png''] \<mapsto> [4, 5])\<rparr>) \<and>
   post_upload calm_env keyless_request logo_state =
     (Error_json 400 ''Missing 'key' field'',
      logo_state\<lparr>files := (files logo_state)
        ([''srv'', ''uploads'', ''2_image_b_c.png''] \<mapsto> [4, 5])\<rparr>)"
proof -
  let ?s1 = "logo_state\<lparr>files := (files logo_state)
    ([''srv'', ''uploads'', ''2_image_b_c.png''] \<mapsto> [4, 5])\<rparr>"
  have a: "key_at_file_part keyless_request = None"
    and f: "body_events keyless_request = [File_part ''image'' ''b c.png'' [4, 5]]"
    and b: "body_key keyless_request = None"
    by (simp_all add: keyless_request_def)
  have env: "date_now calm_env = 2" "UPLOAD_DIR calm_env = [''srv'', ''uploads'']"
    "write_error calm_env = None"
    by (simp_all add: calm_env_def)
  have n: "show_nat 2 = ''2''" "replace_unsafe ''b c.png'' = ''b_c.png''"
    by (simp_all add: show_nat.simps replace_unsafe_def safe_char_def in_range_def)
  have fs: "[''srv'', ''uploads''] \<in> dirs logo_state"
    "\<not> invalid_path [''srv'', ''uploads'']"
    "[''srv'', ''uploads'', ''2_image_b_c.png''] \<notin> dirs logo_state"
    by (simp_all add: logo_state_def invalid_path_def)
  note w = keyless_filename_written_first
    [of 2 "''b c.png''" keyless_request "[4, 5]" calm_env logo_state "''2_image_b_c.png''" ?s1]
  have name: "filename_cb 2 None ''b c.png'' = ''2_image_b_c.png''"
    using w by (simp add: n)
  have single: "upload_single calm_env keyless_request logo_state =
      Inr (Some ''2_image_b_c.png'', ?s1)"
    using w a f fs by (simp add: env n)
  have answer: "post_upload calm_env keyless_request logo_state =
      (Error_json 400 ''Missing 'key' field'', ?s1)"
    using w a b single by blast
  from a f b name single answer show ?thesis by simp
qed

end
